theory Spec2Isabelle
  imports Main "HOL-Library.Word"
begin

section \<open>Values of the program\<close>

text \<open>
  The module \<^verbatim>\<open>src/utils/getTrustedCertificates.ts\<close> collects certificate entries of the
  type \<^verbatim>\<open>string | Buffer\<close>. A \<^verbatim>\<open>Buffer\<close> is a sequence of bytes.
\<close>

datatype cert = CertString string | CertBuffer "8 word list"

text \<open>
  JavaScript arrays are objects: two variables may hold the same array, and
  \<^verbatim>\<open>push\<close> through one is seen through the other. Arrays therefore live in a store
  and variables hold addresses.
\<close>

type_synonym addr = nat

record heap =
  cells :: "addr \<Rightarrow> cert list"
  nextAddr :: addr

text \<open>
  The option \<^verbatim>\<open>https.globalAgent.options.ca\<close> has the type
  \<^verbatim>\<open>string | Buffer | (string | Buffer)[] | undefined\<close>.
\<close>

datatype ca_value = CaUndefined | CaSingle cert | CaArray addr

text \<open>A thrown value, or the reason of a rejected promise.\<close>

datatype error = Error string

text \<open>What \<^verbatim>\<open>fse.stat\<close> resolves to, as far as the module reads it.\<close>

record stats =
  isDirectory :: bool
  isFile :: bool

text \<open>
  The effects on the outside that the module causes: a warning shown to the user, a line on
  the console, and the loading of a platform reader module by \<^verbatim>\<open>require\<close>.
\<close>

datatype event = ShowWarningMessage string | ConsoleLog string | Require string

text \<open>
  The collaborators of the module, none of which is defined in it: the platform probes of
  \<^verbatim>\<open>../helpers/osVersion\<close>, the setting \<^verbatim>\<open>docker.certificates\<close>, \<^verbatim>\<open>path.isAbsolute\<close>,
  \<^verbatim>\<open>fse.pathExists\<close>, \<^verbatim>\<open>fse.stat\<close>, \<^verbatim>\<open>globAsync\<close> with the options
  \<^verbatim>\<open>{ absolute: true, nodir: true, cwd: certPath }\<close>, and the module body that
  \<^verbatim>\<open>require('win-ca')\<close> or \<^verbatim>\<open>require('mac-ca')\<close> runs. Such a reader works on the store and on
  the option \<^verbatim>\<open>ca\<close> of the global agent, and it may throw; the module variable
  \<^verbatim>\<open>_systemCertificates\<close> is out of its reach.
\<close>

record env =
  isWindows :: bool
  isMac :: bool
  isLinux :: bool
  configuration :: "string list option"
  isAbsolute :: "string \<Rightarrow> bool"
  pathExists :: "string \<Rightarrow> error + bool"
  stat :: "string \<Rightarrow> error + stats"
  globAsync :: "string \<Rightarrow> error + string list"
  reader :: "string \<Rightarrow> heap \<Rightarrow> ca_value \<Rightarrow> error option \<times> heap \<times> ca_value"

text \<open>
  The state of the process: the store, the module variable \<^verbatim>\<open>_systemCertificates\<close>
  (undefined or an array), the option \<^verbatim>\<open>https.globalAgent.options.ca\<close>, and the effects
  caused so far.
\<close>

record state =
  heap :: heap
  systemCertificates :: "addr option"
  globalAgentCa :: ca_value
  events :: "event list"

text \<open>
  The \<^verbatim>\<open>IActionContext\<close> that \<^verbatim>\<open>callWithTelemetryAndErrorHandling\<close> passes to its callback
  as \<^verbatim>\<open>this\<close>, as far as the callback writes it.
\<close>

record actionContext =
  suppressTelemetry :: bool
  properties :: "string \<rightharpoonup> string"

section \<open>Array operations\<close>

text \<open>An array literal allocates a new array.\<close>

definition alloc :: "cert list \<Rightarrow> heap \<Rightarrow> addr \<times> heap" where
  "alloc xs h =
     (nextAddr h, h\<lparr>cells := (cells h)(nextAddr h := xs), nextAddr := Suc (nextAddr h)\<rparr>)"

text \<open>
  \<^verbatim>\<open>a.push(...xs)\<close> appends to the array in place. The spread passes each element of
  \<open>xs\<close> as an argument, and a call with more arguments than the engine accepts throws
  \<^verbatim>\<open>RangeError\<close>; the bound is the engine's and appears nowhere in the module. The
  model covers the runs in which every spread fits.
\<close>

definition push :: "addr \<Rightarrow> cert list \<Rightarrow> heap \<Rightarrow> heap" where
  "push a xs h = h\<lparr>cells := (cells h)(a := cells h a @ xs)\<rparr>"

text \<open>\<^verbatim>\<open>String(n)\<close> of an array length: its decimal digits.\<close>

definition digit :: "nat \<Rightarrow> char" where
  "digit d = ''0123456789'' ! d"

function String_of_nat :: "nat \<Rightarrow> string" where
  "String_of_nat n =
     (if n < 10 then [digit n] else String_of_nat (n div 10) @ [digit (n mod 10)])"
  by pat_completeness auto
termination
  by (relation "measure id") auto

declare String_of_nat.simps [simp del]

section \<open>getCertificatesFromSystem\<close>

text \<open>
  \<^verbatim>\<open>!certificates\<close> at line 98: of the values of the option's type, only
  \<^verbatim>\<open>undefined\<close> and the empty string are falsy (a Buffer and an array are objects).
\<close>

definition falsy :: "ca_value \<Rightarrow> bool" where
  "falsy v = (v = CaUndefined \<or> v = CaSingle (CertString []))"

text \<open>
  Lines 86 to 96: the \<^verbatim>\<open>try\<close> block loads the reader of the platform, and the
  \<^verbatim>\<open>finally\<close> block reads the option back and restores it. There is no \<^verbatim>\<open>catch\<close>:
  what the reader throws leaves the function after the \<^verbatim>\<open>finally\<close> block. The result
  is the thrown value if any, the value read back, and the state after the block.
\<close>

definition loadReader :: "env \<Rightarrow> state \<Rightarrow> error option \<times> ca_value \<times> state" where
  "loadReader env s =
     (let previousCertificateAuthorities = globalAgentCa s;
          (module, evs) =
            (if isWindows env then (Some ''win-ca'', [Require ''win-ca''])
             else if isMac env then (Some ''mac-ca'', [Require ''mac-ca''])
             else (None, []));
          (thrown, h, ca) =
            (case module of
               Some m \<Rightarrow> reader env m (heap s) (globalAgentCa s)
             | None \<Rightarrow> (None, heap s, globalAgentCa s));
          certificates = ca
      in (thrown, certificates,
          s\<lparr>heap := h, globalAgentCa := previousCertificateAuthorities,
            events := events s @ evs\<rparr>))"

text \<open>
  Lines 98 to 102: an absent value becomes a new empty array, a single entry a new array of
  one element, and an array is used as it is (the same object).
\<close>

definition normalize :: "ca_value \<Rightarrow> heap \<Rightarrow> addr \<times> heap" where
  "normalize certificates h =
     (if falsy certificates then alloc [] h
      else case certificates of
             CaArray a \<Rightarrow> (a, h)
           | CaSingle c \<Rightarrow> alloc [c] h
           | CaUndefined \<Rightarrow> alloc [] h)"

text \<open>
  The function returns the array held by \<^verbatim>\<open>_systemCertificates\<close> (its address), or
  throws. The array literal of line 84 is overwritten in the \<^verbatim>\<open>finally\<close> block on every
  path and never read, so it is left out.
\<close>

definition getCertificatesFromSystem :: "env \<Rightarrow> state \<Rightarrow> (error + addr) \<times> state" where
  "getCertificatesFromSystem env s =
     (case systemCertificates s of
        Some cached \<Rightarrow> (Inr cached, s)
      | None \<Rightarrow>
          (case loadReader env s of
             (Some e, certificates, s1) \<Rightarrow> (Inl e, s1)
           | (None, certificates, s1) \<Rightarrow>
               (let (a, h) = normalize certificates (heap s1)
                in (Inr a, s1\<lparr>heap := h, systemCertificates := Some a\<rparr>))))"

section \<open>getCertificatesFromPaths\<close>

definition notAbsoluteMessage :: "string \<Rightarrow> string" where
  \<open>notAbsoluteMessage certPath =
     ''Certificate path "'' @ certPath @ ''" is not an absolute path, ignored.''\<close>

definition notFoundMessage :: "string \<Rightarrow> string" where
  \<open>notFoundMessage certPath = ''Could not find certificate path "'' @ certPath @ ''.''\<close>

text \<open>
  Lines 52 to 62: the \<^verbatim>\<open>try\<close> block around \<^verbatim>\<open>pathExists\<close> and \<^verbatim>\<open>stat\<close>. Its
  \<^verbatim>\<open>catch\<close> is empty, so a failure leaves both flags false.
\<close>

definition probe :: "env \<Rightarrow> string \<Rightarrow> bool \<times> bool" where
  "probe env certPath =
     (case pathExists env certPath of
        Inl e \<Rightarrow> (False, False)
      | Inr False \<Rightarrow> (False, False)
      | Inr True \<Rightarrow>
          (case stat env certPath of
             Inl e \<Rightarrow> (False, False)
           | Inr st \<Rightarrow> (isDirectory st, isFile st)))"

text \<open>
  The loop of lines 47 to 73, with the array \<^verbatim>\<open>certs\<close> and the effects caused so far
  as accumulators. \<^verbatim>\<open>globAsync\<close> is awaited outside the \<^verbatim>\<open>try\<close> block: its
  rejection ends the function. \<^verbatim>\<open>certs.push(...files)\<close> at line 66 is a spread call, as
  above.
\<close>

fun getCertificatesFromPaths_loop ::
  "env \<Rightarrow> string list \<Rightarrow> string list \<Rightarrow> event list \<Rightarrow> (error + string list) \<times> event list"
where
  "getCertificatesFromPaths_loop env [] certs evs = (Inr certs, evs)"
| "getCertificatesFromPaths_loop env (certPath # rest) certs evs =
     (if \<not> isAbsolute env certPath then
        getCertificatesFromPaths_loop env rest certs
          (evs @ [ShowWarningMessage (notAbsoluteMessage certPath)])
      else
        (let (isFolder, isFile) = probe env certPath in
         if isFolder then
           (case globAsync env certPath of
              Inl e \<Rightarrow> (Inl e, evs)
            | Inr files \<Rightarrow> getCertificatesFromPaths_loop env rest (certs @ files) evs)
         else if isFile then getCertificatesFromPaths_loop env rest (certs @ [certPath]) evs
         else
           getCertificatesFromPaths_loop env rest certs
             (evs @ [ConsoleLog (notFoundMessage certPath)])))"

definition getCertificatesFromPaths ::
  "env \<Rightarrow> string list \<Rightarrow> (error + string list) \<times> event list"
where
  "getCertificatesFromPaths env paths = getCertificatesFromPaths_loop env paths [] []"

section \<open>getTrustedCertificates\<close>

text \<open>Lines 24 to 32: the configured paths, or the default of the platform.\<close>

definition certificatePaths :: "env \<Rightarrow> string list" where
  "certificatePaths env =
     (case configuration env of
        Some paths \<Rightarrow> paths
      | None \<Rightarrow>
          if isLinux env then
            [''/etc/ssl/certs/ca-certificates'', ''/etc/openssl/certs'',
             ''/etc/pki/tls/certs'', ''/usr/local/share/certs'']
          else [])"

text \<open>
  The callback that \<^verbatim>\<open>getTrustedCertificates\<close> hands to
  \<^verbatim>\<open>callWithTelemetryAndErrorHandling\<close> (a function of the library
  \<^verbatim>\<open>vscode-azureextensionui\<close>, which supplies the context and receives the outcome).
  The result is the returned array (its address) or the thrown value, the context, and the
  state. \<^verbatim>\<open>let certificates = systemCerts\<close> copies the reference, not the array.
\<close>

definition getTrustedCertificates ::
  "env \<Rightarrow> actionContext \<Rightarrow> state \<Rightarrow> (error + addr) \<times> actionContext \<times> state"
where
  "getTrustedCertificates env this s =
     (let this1 = this\<lparr>suppressTelemetry := True\<rparr> in
      case getCertificatesFromSystem env s of
        (Inl e, s1) \<Rightarrow> (Inl e, this1, s1)
      | (Inr systemCerts, s1) \<Rightarrow>
          (case getCertificatesFromPaths env (certificatePaths env) of
             (Inl e, evs) \<Rightarrow> (Inl e, this1, s1\<lparr>events := events s1 @ evs\<rparr>)
           | (Inr folderCerts, evs) \<Rightarrow>
               (let s2 = s1\<lparr>events := events s1 @ evs\<rparr>;
                    this2 = this1\<lparr>properties := (properties this1)
                      (''fromSystemCount'' \<mapsto> String_of_nat (length (cells (heap s2) systemCerts)),
                       ''fromPathsCount'' \<mapsto> String_of_nat (length folderCerts))\<rparr>;
                    certificates = systemCerts
                in (Inr certificates, this2,
                    s2\<lparr>heap := push certificates (map CertString folderCerts) (heap s2)\<rparr>))))"

text \<open>The sequence a returned array holds in a state.\<close>

definition contents :: "state \<Rightarrow> addr \<Rightarrow> cert list" where
  "contents s a = cells (heap s) a"

section \<open>Sequences of invocations\<close>

text \<open>
  What the path-based extraction contributes under a configuration and a file system: the
  entries that \<^verbatim>\<open>getTrustedCertificates\<close> pushes at line 39.
\<close>

definition pathEntries :: "env \<Rightarrow> cert list" where
  "pathEntries env =
     (case fst (getCertificatesFromPaths env (certificatePaths env)) of
        Inr folderCerts \<Rightarrow> map CertString folderCerts
      | Inl e \<Rightarrow> [])"

text \<open>
  The state of the process after a run of invocations that all returned, each with the
  configuration and file system of its moment; \<open>Inl\<close> as soon as one throws.
\<close>

fun invocations :: "(env \<times> actionContext) list \<Rightarrow> state \<Rightarrow> error + state" where
  "invocations [] s = Inr s"
| "invocations ((env, this) # rest) s =
     (case getTrustedCertificates env this s of
        (Inl e, this', s') \<Rightarrow> Inl e
      | (Inr a, this', s') \<Rightarrow> invocations rest s')"

text \<open>
  The outcome of the loop started with accumulators \<open>certs\<close> and \<open>evs\<close>, from its
  outcome started with empty ones.
\<close>

definition shift ::
  "string list \<Rightarrow> event list \<Rightarrow> (error + string list) \<times> event list \<Rightarrow>
     (error + string list) \<times> event list"
where
  "shift certs evs r =
     (case r of
        (Inl e, evs') \<Rightarrow> (Inl e, evs @ evs')
      | (Inr cs, evs') \<Rightarrow> (Inr (certs @ cs), evs @ evs'))"

section \<open>The process\<close>




section \<open>Example inputs\<close>

text \<open>
  A Linux host with the file \<^verbatim>\<open>/a.pem\<close>, the directory \<^verbatim>\<open>/certs\<close> holding two files, and
  \<^verbatim>\<open>/locked\<close>, which exists and cannot be read; the file and the directory are configured.
  No reader is installed.
\<close>

definition exampleEnv :: env where
  "exampleEnv =
     \<lparr>isWindows = False, isMac = False, isLinux = True,
      configuration = Some [''/a.pem'', ''/certs''],
      isAbsolute = (\<lambda>p. take 1 p = ''/''),
      pathExists = (\<lambda>p. Inr (p = ''/a.pem'' \<or> p = ''/certs'' \<or> p = ''/locked'')),
      stat = (\<lambda>p. if p = ''/a.pem'' then Inr \<lparr>isDirectory = False, isFile = True\<rparr>
                  else if p = ''/certs'' then Inr \<lparr>isDirectory = True, isFile = False\<rparr>
                  else if p = ''/locked'' then Inl (Error ''EACCES'')
                  else Inl (Error ''ENOENT'')),
      globAsync = (\<lambda>p. if p = ''/certs'' then Inr [''/certs/b.pem'', ''/certs/c.pem'']
                       else Inr []),
      reader = (\<lambda>m h ca. (None, h, ca))\<rparr>"

definition oneFile :: env where
  "oneFile = exampleEnv\<lparr>configuration := Some [''/a.pem'']\<rparr>"

definition onlyFolder :: env where
  "onlyFolder = exampleEnv\<lparr>configuration := Some [''/certs'']\<rparr>"

text \<open>A Windows host whose reader installs a new array of one certificate.\<close>

definition workingWindows :: env where
  "workingWindows =
     exampleEnv\<lparr>isWindows := True, isLinux := False,
       reader := (\<lambda>m h ca. let (a, h') = alloc [CertString ''ROOT''] h
                             in (None, h', CaArray a))\<rparr>"

text \<open>A Windows host whose reader throws after it has written the option.\<close>

definition failingWindows :: env where
  "failingWindows =
     exampleEnv\<lparr>isWindows := True, isLinux := False,
       reader := (\<lambda>m h ca. (Some (Error ''cannot load''), h, CaArray 7))\<rparr>"

text \<open>A process that has just started, and a context as the callback receives it.\<close>

definition exampleState :: state where
  "exampleState =
     \<lparr>heap = \<lparr>cells = (\<lambda>a. []), nextAddr = 0\<rparr>, systemCertificates = None,
      globalAgentCa = CaUndefined, events = []\<rparr>"

definition exampleContext :: actionContext where
  "exampleContext = \<lparr>suppressTelemetry = False, properties = Map.empty\<rparr>"

text \<open>
  The states that process reaches on the Linux host: array 0 is the one held by
  \<^verbatim>\<open>_systemCertificates\<close>, with the entries \<open>xs\<close>. And the context after the callback
  has written the two counts.
\<close>

definition memoized :: "cert list \<Rightarrow> state" where
  "memoized xs =
     \<lparr>heap = \<lparr>cells = (\<lambda>a. [])(0 := xs), nextAddr = 1\<rparr>, systemCertificates = Some 0,
      globalAgentCa = CaUndefined, events = []\<rparr>"

definition reported :: "string \<Rightarrow> string \<Rightarrow> actionContext" where
  "reported fromSystemCount fromPathsCount =
     \<lparr>suppressTelemetry = True,
      properties = [''fromSystemCount'' \<mapsto> fromSystemCount,
                    ''fromPathsCount'' \<mapsto> fromPathsCount]\<rparr>"

text \<open>
  A Mac host whose reader appends its certificate to the array the option holds, and installs
  a new array only when the option holds none. And the Linux example with every enumeration
  rejected.
\<close>

definition appendingMac :: env where
  "appendingMac =
     exampleEnv\<lparr>isMac := True, isLinux := False,
       reader := (\<lambda>m h ca. case ca of
                    CaArray a \<Rightarrow> (None, push a [CertString ''ROOT''] h, ca)
                  | _ \<Rightarrow> (let (a, h') = alloc [CertString ''ROOT''] h
                         in (None, h', CaArray a)))\<rparr>"

definition rejectingGlob :: env where
  "rejectingGlob = exampleEnv\<lparr>globAsync := (\<lambda>p. Inl (Error ''EACCES''))\<rparr>"

text \<open>
  A process in which code elsewhere has set the option to an array (array 0, with the entries
  \<open>xs\<close>) before the module is first used. And the state the Windows example is in after
  its reader has been loaded.
\<close>

definition holding :: "cert list \<Rightarrow> state" where
  "holding xs =
     \<lparr>heap = \<lparr>cells = (\<lambda>a. [])(0 := xs), nextAddr = 1\<rparr>, systemCertificates = None,
      globalAgentCa = CaArray 0, events = []\<rparr>"

definition windowsRead :: state where
  "windowsRead =
     \<lparr>heap = \<lparr>cells = (\<lambda>a. [])(0 := [CertString ''ROOT'']), nextAddr = 1\<rparr>,
      systemCertificates = Some 0, globalAgentCa = CaUndefined,
      events = [Require ''win-ca'']\<rparr>"

section \<open>The trust configuration is restored\<close>






section \<open>Evaluation of the examples\<close>

lemmas system_defs =
  getCertificatesFromSystem_def loadReader_def normalize_def falsy_def alloc_def

lemmas paths_defs =
  getCertificatesFromPaths_def probe_def certificatePaths_def

lemmas example_defs =
  exampleEnv_def exampleState_def exampleContext_def failingWindows_def oneFile_def
  onlyFolder_def workingWindows_def appendingMac_def rejectingGlob_def holding_def
  windowsRead_def

lemmas eval_defs =
  getTrustedCertificates_def push_def contents_def system_defs paths_defs example_defs
  memoized_def reported_def String_of_nat.simps digit_def


lemma oneFile_system:
  "getCertificatesFromSystem oneFile exampleState = (Inr 0, memoized [])"
  by (simp add: eval_defs)

lemma oneFile_first:
  "getTrustedCertificates oneFile exampleContext exampleState =
     (Inr 0, reported ''0'' ''1'', memoized [CertString ''/a.pem''])"
  by (simp add: eval_defs)

lemma oneFile_second:
  "getTrustedCertificates oneFile exampleContext (memoized [CertString ''/a.pem'']) =
     (Inr 0, reported ''1'' ''1'', memoized [CertString ''/a.pem'', CertString ''/a.pem''])"
  by (simp add: eval_defs)

lemma onlyFolder_second:
  "getTrustedCertificates onlyFolder exampleContext (memoized [CertString ''/a.pem'']) =
     (Inr 0, reported ''1'' ''2'',
      memoized [CertString ''/a.pem'', CertString ''/certs/b.pem'', CertString ''/certs/c.pem''])"
  by (simp add: eval_defs)

lemma exampleEnv_third:
  "getTrustedCertificates exampleEnv exampleContext
     (memoized [CertString ''/a.pem'', CertString ''/certs/b.pem'', CertString ''/certs/c.pem'']) =
     (Inr 0, reported ''3'' ''3'',
      memoized [CertString ''/a.pem'', CertString ''/certs/b.pem'', CertString ''/certs/c.pem'',
              CertString ''/a.pem'', CertString ''/certs/b.pem'', CertString ''/certs/c.pem''])"
  by (simp add: eval_defs)

lemma example_pathEntries:
  "pathEntries oneFile = [CertString ''/a.pem'']"
  "pathEntries onlyFolder = [CertString ''/certs/b.pem'', CertString ''/certs/c.pem'']"
  "pathEntries exampleEnv =
     [CertString ''/a.pem'', CertString ''/certs/b.pem'', CertString ''/certs/c.pem'']"
  by (simp_all add: pathEntries_def eval_defs)

section \<open>The memoized array\<close>

lemma getCertificatesFromSystem_cached_state:
  "systemCertificates s = Some a \<Longrightarrow> getCertificatesFromSystem env s = (Inr a, s)"
  by (simp add: getCertificatesFromSystem_def)

lemma getCertificatesFromSystem_sets_cache:
  assumes "getCertificatesFromSystem env s = (Inr a, s1)"
  shows "systemCertificates s1 = Some a"
proof (cases "systemCertificates s")
  case (Some cached)
  with assms show ?thesis by (simp add: getCertificatesFromSystem_def)
next
  case None
  with assms show ?thesis
    by (auto simp: getCertificatesFromSystem_def Let_def split: prod.splits option.splits)
qed

text \<open>
  One invocation that returns: the array it returns is the memoized one, and it leaves that
  array longer by its own path entries. The count it reports for the system is the length
  the array had when \<^verbatim>\<open>getCertificatesFromSystem\<close> returned it.
\<close>

lemma getTrustedCertificates_returns:
  assumes inv: "getTrustedCertificates env this s = (Inr a, this', s')"
      and sys: "getCertificatesFromSystem env s = (Inr a0, s1)"
  shows "a = a0"
    and "systemCertificates s' = Some a0"
    and "contents s' a0 = contents s1 a0 @ pathEntries env"
    and "properties this' ''fromSystemCount'' = Some (String_of_nat (length (contents s1 a0)))"
    and "properties this' ''fromPathsCount'' = Some (String_of_nat (length (pathEntries env)))"
proof -
  have c: "systemCertificates s1 = Some a0"
    using sys by (rule getCertificatesFromSystem_sets_cache)
  obtain r evs where p: "getCertificatesFromPaths env (certificatePaths env) = (r, evs)"
    by (cases "getCertificatesFromPaths env (certificatePaths env)") auto
  from inv sys p obtain folderCerts where r: "r = Inr folderCerts"
    by (cases r) (auto simp: getTrustedCertificates_def)
  have pe: "pathEntries env = map CertString folderCerts"
    by (simp add: pathEntries_def p r)
  from inv sys p r show "a = a0"
    by (simp add: getTrustedCertificates_def Let_def)
  from inv sys p r c show "systemCertificates s' = Some a0"
    by (auto simp: getTrustedCertificates_def Let_def)
  from inv sys p r show "contents s' a0 = contents s1 a0 @ pathEntries env"
    by (auto simp: getTrustedCertificates_def Let_def contents_def push_def pe)
  from inv sys p r
  show "properties this' ''fromSystemCount'' = Some (String_of_nat (length (contents s1 a0)))"
    by (auto simp: getTrustedCertificates_def Let_def contents_def)
  from inv sys p r
  show "properties this' ''fromPathsCount'' = Some (String_of_nat (length (pathEntries env)))"
    by (auto simp: getTrustedCertificates_def Let_def pe)
qed

lemma invocations_accumulate:
  "systemCertificates s = Some a \<Longrightarrow> invocations hist s = Inr s' \<Longrightarrow>
     systemCertificates s' = Some a \<and>
     contents s' a = contents s a @ concat (map (pathEntries \<circ> fst) hist)"
proof (induction hist arbitrary: s)
  case Nil
  then show ?case by simp
next
  case (Cons x hist)
  obtain env this where x: "x = (env, this)" by (cases x) auto
  obtain r this' s1 where g: "getTrustedCertificates env this s = (r, this', s1)"
    by (cases "getTrustedCertificates env this s") auto
  from Cons.prems(2) x g obtain b where r: "r = Inr b" and rest: "invocations hist s1 = Inr s'"
    by (cases r) auto
  have sys: "getCertificatesFromSystem env s = (Inr a, s)"
    using Cons.prems(1) by (rule getCertificatesFromSystem_cached_state)
  from g r have g': "getTrustedCertificates env this s = (Inr b, this', s1)" by simp
  have c1: "systemCertificates s1 = Some a"
    and k1: "contents s1 a = contents s a @ pathEntries env"
    using getTrustedCertificates_returns(2,3) [OF g' sys] by auto
  from Cons.IH [OF c1 rest] k1 x show ?case by simp
qed

text \<open>
  Claim C1. The claim: every invocation of \<^verbatim>\<open>getTrustedCertificates\<close> returns exactly the
  system entries followed by the path entries of that invocation, with nothing of an earlier
  invocation. On the Linux example with the one configured file \<^verbatim>\<open>/a.pem\<close> the system
  contributes nothing and the paths contribute \<^verbatim>\<open>/a.pem\<close>; the first invocation returns
  that one entry, and the second invocation, from the state the first one left, returns it
  twice: line 39 pushed the first invocation's entry into the memoized array.
\<close>

theorem second_invocation_repeats_path_entries:
  "getCertificatesFromSystem oneFile exampleState = (Inr 0, memoized []) \<and>
   pathEntries oneFile = [CertString ''/a.pem''] \<and>
   getTrustedCertificates oneFile exampleContext exampleState =
     (Inr 0, reported ''0'' ''1'', memoized [CertString ''/a.pem'']) \<and>
   fst (getTrustedCertificates oneFile exampleContext (memoized [CertString ''/a.pem''])) = Inr 0 \<and>
   contents (snd (snd (getTrustedCertificates oneFile exampleContext
     (memoized [CertString ''/a.pem''])))) 0 = [CertString ''/a.pem'', CertString ''/a.pem'']"
  by (simp add: oneFile_system oneFile_first oneFile_second example_pathEntries)
     (simp add: memoized_def contents_def)











text \<open>
  Claim C4. Let invocations 1 to n - 1 of \<^verbatim>\<open>getTrustedCertificates\<close> have returned
  (n is at least 2: the first one is \<open>(env1, this1)\<close>), and let the n-th return. Then it
  returns the array that \<^verbatim>\<open>getCertificatesFromSystem\<close> returned in the first invocation,
  which is the memoized one, and that array holds the entries it had then, followed by the
  path entries of invocations 1 to n - 1 in order, followed by the path entries of the n-th.
  The count reported for the system in the n-th invocation includes the path entries of all
  earlier invocations.
\<close>

theorem later_invocations_accumulate:
  assumes sys: "getCertificatesFromSystem env1 s0 = (Inr a1, s1)"
      and hist: "invocations ((env1, this1) # earlier) s0 = Inr s"
      and nth: "getTrustedCertificates env this s = (Inr a, this', s')"
  shows "a = a1 \<and> systemCertificates s = Some a1 \<and>
         contents s' a =
           contents s1 a1 @ concat (map (pathEntries \<circ> fst) ((env1, this1) # earlier)) @
           pathEntries env \<and>
         properties this' ''fromSystemCount'' =
           Some (String_of_nat (length (contents s1 a1) +
             length (concat (map (pathEntries \<circ> fst) ((env1, this1) # earlier)))))"
proof -
  obtain r t0 s0' where g: "getTrustedCertificates env1 this1 s0 = (r, t0, s0')"
    by (cases "getTrustedCertificates env1 this1 s0") auto
  from hist g obtain b where r: "r = Inr b" and rest: "invocations earlier s0' = Inr s"
    by (cases r) auto
  from g r have g': "getTrustedCertificates env1 this1 s0 = (Inr b, t0, s0')" by simp
  have c0: "systemCertificates s0' = Some a1"
    and k0: "contents s0' a1 = contents s1 a1 @ pathEntries env1"
    using getTrustedCertificates_returns(2,3) [OF g' sys] by auto
  from invocations_accumulate [OF c0 rest]
  have c: "systemCertificates s = Some a1"
    and k: "contents s a1 = contents s0' a1 @ concat (map (pathEntries \<circ> fst) earlier)"
    by auto
  have sysn: "getCertificatesFromSystem env s = (Inr a1, s)"
    using c by (rule getCertificatesFromSystem_cached_state)
  note n = getTrustedCertificates_returns [OF nth sysn]
  from n(1) n(3) n(4) c k k0 show ?thesis by simp
qed

text \<open>
  Three invocations on the Linux example, configured with the file, then with the
  directory, then with both: the third returns six entries and reports three for the system.
\<close>

theorem later_invocations_accumulate_witness:
  "contents (memoized [CertString ''/a.pem'', CertString ''/certs/b.pem'', CertString ''/certs/c.pem'',
              CertString ''/a.pem'', CertString ''/certs/b.pem'', CertString ''/certs/c.pem'']) 0 =
     contents (memoized []) 0 @
     concat (map (pathEntries \<circ> fst) [(oneFile, exampleContext), (onlyFolder, exampleContext)]) @
     pathEntries exampleEnv \<and>
   properties (reported ''3'' ''3'') ''fromSystemCount'' =
     Some (String_of_nat (length (contents (memoized []) 0) +
       length (concat (map (pathEntries \<circ> fst)
         [(oneFile, exampleContext), (onlyFolder, exampleContext)]))))"
proof -
  have hist: "invocations [(oneFile, exampleContext), (onlyFolder, exampleContext)] exampleState =
      Inr (memoized [CertString ''/a.pem'', CertString ''/certs/b.pem'', CertString ''/certs/c.pem''])"
    by (simp add: oneFile_first onlyFolder_second)
  from later_invocations_accumulate [OF oneFile_system hist exampleEnv_third]
  show ?thesis by simp
qed

section \<open>The Linux-like host\<close>

text \<open>
  Claim C5, as amended. On a host that is Linux-like (and neither Windows-like nor
  Mac-like), the first call of \<^verbatim>\<open>getCertificatesFromSystem\<close> loads no reader and leaves the
  option of the global agent as it was; what it returns and memoizes is the value that option
  already held, normalized. When the option was undefined or the empty string it is a new
  empty array; when the option held a single entry it is a new array of that entry; when the
  option held an array it is the option's own array, the same object, and the store is as it
  was, so that array keeps its entries.
\<close>

theorem linux_reads_no_trust_store:
  assumes "isLinux env" and "\<not> isWindows env" and "\<not> isMac env"
      and "systemCertificates s = None"
  shows "\<exists>a s'. getCertificatesFromSystem env s = (Inr a, s') \<and>
           events s' = events s \<and> globalAgentCa s' = globalAgentCa s \<and>
           systemCertificates s' = Some a \<and>
           (case globalAgentCa s of
              CaUndefined \<Rightarrow> (a, heap s') = alloc [] (heap s)
            | CaSingle c \<Rightarrow>
                (a, heap s') = alloc (if c = CertString [] then [] else [c]) (heap s)
            | CaArray b \<Rightarrow> a = b \<and> heap s' = heap s) \<and>
           contents s' a =
             (case globalAgentCa s of
                CaUndefined \<Rightarrow> []
              | CaSingle c \<Rightarrow> if c = CertString [] then [] else [c]
              | CaArray b \<Rightarrow> contents s b)"
  using assms
  by (cases "globalAgentCa s")
     (auto simp: system_defs Let_def contents_def split: prod.splits)

text \<open>
  On the Linux example: nothing when the option is undefined, and the option's own array 0
  with its one entry, in an unchanged store, when the option holds that array.
\<close>

theorem linux_reads_no_trust_store_witness:
  "(\<exists>a s'. getCertificatesFromSystem exampleEnv exampleState = (Inr a, s') \<and>
           events s' = [] \<and> globalAgentCa s' = CaUndefined \<and> contents s' a = []) \<and>
   (\<exists>a s'. getCertificatesFromSystem exampleEnv (holding [CertString ''OLD'']) = (Inr a, s') \<and>
           a = 0 \<and> heap s' = heap (holding [CertString ''OLD'']) \<and>
           globalAgentCa s' = CaArray 0 \<and> contents s' a = [CertString ''OLD''])"
proof -
  have l: "isLinux exampleEnv" "\<not> isWindows exampleEnv" "\<not> isMac exampleEnv"
    by (simp_all add: exampleEnv_def)
  have n: "systemCertificates exampleState = None"
      "systemCertificates (holding [CertString ''OLD'']) = None"
    by (simp_all add: exampleState_def holding_def)
  have v: "events exampleState = []" "globalAgentCa exampleState = CaUndefined"
      "globalAgentCa (holding [CertString ''OLD'']) = CaArray 0"
      "contents (holding [CertString ''OLD'']) 0 = [CertString ''OLD'']"
    by (simp_all add: exampleState_def holding_def contents_def)
  from linux_reads_no_trust_store [OF l n(1)] obtain a s' where
    "getCertificatesFromSystem exampleEnv exampleState = (Inr a, s')"
    "events s' = events exampleState" "globalAgentCa s' = globalAgentCa exampleState"
    "contents s' a = (case globalAgentCa exampleState of
                CaUndefined \<Rightarrow> []
              | CaSingle c \<Rightarrow> if c = CertString [] then [] else [c]
              | CaArray b \<Rightarrow> contents exampleState b)"
    by auto
  with v have first: "\<exists>a s'. getCertificatesFromSystem exampleEnv exampleState = (Inr a, s') \<and>
           events s' = [] \<and> globalAgentCa s' = CaUndefined \<and> contents s' a = []"
    by simp
  from linux_reads_no_trust_store [OF l n(2)] obtain b t' where
    "getCertificatesFromSystem exampleEnv (holding [CertString ''OLD'']) = (Inr b, t')"
    "globalAgentCa t' = globalAgentCa (holding [CertString ''OLD''])"
    "case globalAgentCa (holding [CertString ''OLD'']) of
              CaUndefined \<Rightarrow> (b, heap t') = alloc [] (heap (holding [CertString ''OLD'']))
            | CaSingle c \<Rightarrow> (b, heap t') =
                alloc (if c = CertString [] then [] else [c]) (heap (holding [CertString ''OLD'']))
            | CaArray b' \<Rightarrow> b = b' \<and> heap t' = heap (holding [CertString ''OLD''])"
    "contents t' b = (case globalAgentCa (holding [CertString ''OLD'']) of
                CaUndefined \<Rightarrow> []
              | CaSingle c \<Rightarrow> if c = CertString [] then [] else [c]
              | CaArray b' \<Rightarrow> contents (holding [CertString ''OLD'']) b')"
    by auto
  with v
  have "\<exists>a s'. getCertificatesFromSystem exampleEnv (holding [CertString ''OLD'']) = (Inr a, s') \<and>
           a = 0 \<and> heap s' = heap (holding [CertString ''OLD'']) \<and>
           globalAgentCa s' = CaArray 0 \<and> contents s' a = [CertString ''OLD'']"
    by simp
  with first show ?thesis by (intro conjI)
qed

text \<open>
  The claim as stated fails when the option of the global agent already holds a
  certificate: on the Linux example that certificate is returned as the system's.
\<close>

theorem linux_returns_prior_ca:
  "fst (getCertificatesFromSystem exampleEnv
          (exampleState\<lparr>globalAgentCa := CaSingle (CertString ''PEM'')\<rparr>)) = Inr 0 \<and>
   contents (snd (getCertificatesFromSystem exampleEnv
          (exampleState\<lparr>globalAgentCa := CaSingle (CertString ''PEM'')\<rparr>))) 0 =
     [CertString ''PEM'']"
  by (simp add: system_defs example_defs contents_def)

section \<open>Path-based extraction\<close>

lemma shift_shift: "shift certs evs (shift cs es r) = shift (certs @ cs) (evs @ es) r"
  by (auto simp: shift_def split: prod.splits sum.splits)

lemma shift_Inl: "shift certs evs (Inl e, es) = (Inl e, evs @ es)"
  by (simp add: shift_def)

lemma loop_shift:
  "getCertificatesFromPaths_loop env paths certs evs =
     shift certs evs (getCertificatesFromPaths_loop env paths [] [])"
proof (induction paths arbitrary: certs evs)
  case Nil
  show ?case by (simp add: shift_def)
next
  case (Cons certPath rest)
  note IH = Cons.IH
  show ?case
  proof (cases "isAbsolute env certPath")
    case False
    then show ?thesis
      using IH [of certs "evs @ [ShowWarningMessage (notAbsoluteMessage certPath)]"]
            IH [of "[]" "[ShowWarningMessage (notAbsoluteMessage certPath)]"]
      by (simp add: shift_shift)
  next
    case True
    obtain isFolder isFile' where p: "probe env certPath = (isFolder, isFile')"
      by (cases "probe env certPath") auto
    show ?thesis
    proof (cases isFolder)
      case True
      note folder = this
      show ?thesis
      proof (cases "globAsync env certPath")
        case (Inl e)
        with \<open>isAbsolute env certPath\<close> p folder show ?thesis by (simp add: shift_Inl)
      next
        case (Inr files)
        with \<open>isAbsolute env certPath\<close> p folder show ?thesis
          using IH [of "certs @ files" evs] IH [of files "[]"]
          by (simp add: shift_shift)
      qed
    next
      case False
      note nofolder = this
      show ?thesis
      proof (cases isFile')
        case True
        with \<open>isAbsolute env certPath\<close> p nofolder show ?thesis
          using IH [of "certs @ [certPath]" evs] IH [of "[certPath]" "[]"]
          by (simp add: shift_shift)
      next
        case False
        with \<open>isAbsolute env certPath\<close> p nofolder show ?thesis
          using IH [of certs "evs @ [ConsoleLog (notFoundMessage certPath)]"]
                IH [of "[]" "[ConsoleLog (notFoundMessage certPath)]"]
          by (simp add: shift_shift)
      qed
    qed
  qed
qed

lemma loop_append:
  "getCertificatesFromPaths_loop env (ps @ qs) certs evs =
     (case getCertificatesFromPaths_loop env ps certs evs of
        (Inl e, evs') \<Rightarrow> (Inl e, evs')
      | (Inr certs', evs') \<Rightarrow> getCertificatesFromPaths_loop env qs certs' evs')"
  by (induction env ps certs evs rule: getCertificatesFromPaths_loop.induct)
     (auto split: prod.splits sum.splits)

text \<open>
  Candidates are processed one after the other: the outcome for a list is the outcome for
  its front part followed by the outcome for the rest, unless the front part throws.
\<close>

lemma getCertificatesFromPaths_append:
  "getCertificatesFromPaths env (ps @ qs) =
     (case getCertificatesFromPaths env ps of
        (Inl e, evs) \<Rightarrow> (Inl e, evs)
      | (Inr certs, evs) \<Rightarrow> shift certs evs (getCertificatesFromPaths env qs))"
  unfolding getCertificatesFromPaths_def
  by (simp add: loop_append loop_shift [symmetric] split: prod.splits sum.splits)

lemma getCertificatesFromPaths_single_shift:
  "getCertificatesFromPaths env (p # qs) =
     (case getCertificatesFromPaths env [p] of
        (Inl e, evs) \<Rightarrow> (Inl e, evs)
      | (Inr certs, evs) \<Rightarrow> shift certs evs (getCertificatesFromPaths env qs))"
  using getCertificatesFromPaths_append [of env "[p]" qs] by simp


text \<open>
  Claim C6. Let \<open>A\<close> be an absolute path of an existing regular file and \<open>B\<close> an absolute
  path of an existing directory under which the enumeration finds \<open>file1\<close> and
  \<open>file2\<close>. Then the candidates \<open>[A, B]\<close> give \<open>[A, file1, file2]\<close>, and wherever
  \<open>A, B\<close> stand in a longer list of candidates, these three entries stand in that order
  between the entries of the candidates before and the entries of the candidates after.
\<close>

theorem candidates_expand_in_order:
  assumes "isAbsolute env A" and "pathExists env A = Inr True" and "stat env A = Inr stA"
      and "isFile stA" and "\<not> isDirectory stA"
      and "isAbsolute env B" and "pathExists env B = Inr True" and "stat env B = Inr stB"
      and "isDirectory stB" and "globAsync env B = Inr [file1, file2]"
      and "getCertificatesFromPaths env ps = (Inr xs, evs)"
      and "getCertificatesFromPaths env qs = (Inr ys, evs')"
  shows "getCertificatesFromPaths env [A, B] = (Inr [A, file1, file2], []) \<and>
         getCertificatesFromPaths env (ps @ [A, B] @ qs) =
           (Inr (xs @ [A, file1, file2] @ ys), evs @ evs')"
proof -
  have ab: "getCertificatesFromPaths env [A, B] = (Inr [A, file1, file2], [])"
    using assms(1-10) by (simp add: getCertificatesFromPaths_def probe_def)
  have "getCertificatesFromPaths env ([A, B] @ qs) = (Inr ([A, file1, file2] @ ys), evs')"
    unfolding getCertificatesFromPaths_append [of env "[A, B]" qs]
    by (simp add: ab assms(12) shift_def)
  then have "getCertificatesFromPaths env (ps @ [A, B] @ qs) =
      (Inr (xs @ [A, file1, file2] @ ys), evs @ evs')"
    unfolding getCertificatesFromPaths_append [of env ps "[A, B] @ qs"]
    by (simp add: assms(11) shift_def)
  with ab show ?thesis by simp
qed

theorem candidates_expand_in_order_witness:
  "getCertificatesFromPaths exampleEnv [''/a.pem'', ''/certs''] =
     (Inr [''/a.pem'', ''/certs/b.pem'', ''/certs/c.pem''], []) \<and>
   getCertificatesFromPaths exampleEnv ([''/certs''] @ [''/a.pem'', ''/certs''] @ [''/a.pem'']) =
     (Inr ([''/certs/b.pem'', ''/certs/c.pem''] @ [''/a.pem'', ''/certs/b.pem'', ''/certs/c.pem'']
           @ [''/a.pem'']), [] @ [])"
proof -
  have h: "isAbsolute exampleEnv ''/a.pem''" "pathExists exampleEnv ''/a.pem'' = Inr True"
      "stat exampleEnv ''/a.pem'' = Inr \<lparr>isDirectory = False, isFile = True\<rparr>"
      "isFile \<lparr>isDirectory = False, isFile = True\<rparr>"
      "\<not> isDirectory \<lparr>isDirectory = False, isFile = True\<rparr>"
      "isAbsolute exampleEnv ''/certs''" "pathExists exampleEnv ''/certs'' = Inr True"
      "stat exampleEnv ''/certs'' = Inr \<lparr>isDirectory = True, isFile = False\<rparr>"
      "isDirectory \<lparr>isDirectory = True, isFile = False\<rparr>"
      "globAsync exampleEnv ''/certs'' = Inr [''/certs/b.pem'', ''/certs/c.pem'']"
      "getCertificatesFromPaths exampleEnv [''/certs''] =
         (Inr [''/certs/b.pem'', ''/certs/c.pem''], [])"
      "getCertificatesFromPaths exampleEnv [''/a.pem''] = (Inr [''/a.pem''], [])"
    by (simp_all add: example_defs paths_defs)
  show ?thesis by (rule candidates_expand_in_order [OF h])
qed

text \<open>
  Claim C7. Let \<open>p\<close> be a candidate that is not an absolute path, reached after the
  candidates \<open>ps\<close> before it have given the entries \<open>xs\<close>. Then \<open>p\<close> contributes no
  entry, one warning is shown whose text quotes \<open>p\<close>, and the candidates \<open>qs\<close> after it
  are processed as they are on their own: their entries follow \<open>xs\<close>, and their effects
  follow the warning.
\<close>

theorem relative_path_is_skipped_with_warning:
  assumes "\<not> isAbsolute env p"
      and "getCertificatesFromPaths env ps = (Inr xs, evs)"
  shows "getCertificatesFromPaths env (ps @ p # qs) =
           (case getCertificatesFromPaths env qs of
              (Inl e, evs') \<Rightarrow>
                (Inl e, evs @ ShowWarningMessage (notAbsoluteMessage p) # evs')
            | (Inr ys, evs') \<Rightarrow>
                (Inr (xs @ ys), evs @ ShowWarningMessage (notAbsoluteMessage p) # evs')) \<and>
         notAbsoluteMessage p =
           ''Certificate path '' @ CHR 0x22 # p @ CHR 0x22 # '' is not an absolute path, ignored.''"
proof -
  have one: "getCertificatesFromPaths env [p] =
      (Inr [], [ShowWarningMessage (notAbsoluteMessage p)])"
    using assms(1) by (simp add: getCertificatesFromPaths_def)
  have "getCertificatesFromPaths env (p # qs) =
      shift [] [ShowWarningMessage (notAbsoluteMessage p)] (getCertificatesFromPaths env qs)"
    unfolding getCertificatesFromPaths_single_shift [of env p qs] by (simp add: one)
  then have "getCertificatesFromPaths env (ps @ p # qs) =
      shift xs evs (shift [] [ShowWarningMessage (notAbsoluteMessage p)]
        (getCertificatesFromPaths env qs))"
    unfolding getCertificatesFromPaths_append [of env ps "p # qs"] by (simp add: assms(2))
  then show ?thesis
    by (auto simp: shift_def notAbsoluteMessage_def split: prod.splits sum.splits)
qed

theorem relative_path_is_skipped_with_warning_witness:
  "getCertificatesFromPaths exampleEnv ([''/a.pem''] @ ''relative/x'' # [''/certs'']) =
     (Inr [''/a.pem'', ''/certs/b.pem'', ''/certs/c.pem''],
      [ShowWarningMessage
         (''Certificate path '' @ CHR 0x22 # ''relative/x'' @ CHR 0x22 #
          '' is not an absolute path, ignored.'')])"
proof -
  have h: "\<not> isAbsolute exampleEnv ''relative/x''"
      "getCertificatesFromPaths exampleEnv [''/a.pem''] = (Inr [''/a.pem''], [])"
    by (simp_all add: example_defs paths_defs)
  have q: "getCertificatesFromPaths exampleEnv [''/certs''] =
      (Inr [''/certs/b.pem'', ''/certs/c.pem''], [])"
    by (simp add: example_defs paths_defs)
  from relative_path_is_skipped_with_warning [OF h, of "[''/certs'']"] show ?thesis
    by (simp add: q)
qed




section \<open>The default paths\<close>

lemma loop_configuration:
  "getCertificatesFromPaths_loop (env\<lparr>configuration := c\<rparr>) paths certs evs =
     getCertificatesFromPaths_loop env paths certs evs"
proof (induction paths arbitrary: certs evs)
  case Nil
  show ?case by simp
next
  case (Cons certPath rest)
  have p: "probe (env\<lparr>configuration := c\<rparr>) certPath = probe env certPath"
    by (simp add: probe_def split: sum.splits bool.splits)
  show ?case
    by (simp add: p Cons.IH split: prod.splits sum.splits)
qed

lemma getCertificatesFromPaths_configuration:
  "getCertificatesFromPaths (env\<lparr>configuration := c\<rparr>) paths =
     getCertificatesFromPaths env paths"
  by (simp add: getCertificatesFromPaths_def loop_configuration)

lemma getCertificatesFromSystem_configuration:
  "getCertificatesFromSystem (env\<lparr>configuration := c\<rparr>) s = getCertificatesFromSystem env s"
  by (simp add: getCertificatesFromSystem_def loadReader_def
        split: option.splits prod.splits if_splits)

text \<open>
  Claim C8. When the setting is absent, the paths processed are the four fixed paths, in
  that order, on a Linux-like host and none on any other host, and
  \<^verbatim>\<open>getTrustedCertificates\<close> does exactly what it does when the setting holds that list.
\<close>

theorem default_paths_when_unconfigured:
  assumes "configuration env = None"
  shows "certificatePaths env =
           (if isLinux env then
              [''/etc/ssl/certs/ca-certificates'', ''/etc/openssl/certs'',
               ''/etc/pki/tls/certs'', ''/usr/local/share/certs'']
            else []) \<and>
         getTrustedCertificates env this s =
           getTrustedCertificates
             (env\<lparr>configuration := Some
                (if isLinux env then
                   [''/etc/ssl/certs/ca-certificates'', ''/etc/openssl/certs'',
                    ''/etc/pki/tls/certs'', ''/usr/local/share/certs'']
                 else [])\<rparr>) this s"
proof -
  let ?d = "if isLinux env then
              [''/etc/ssl/certs/ca-certificates'', ''/etc/openssl/certs'',
               ''/etc/pki/tls/certs'', ''/usr/local/share/certs'']
            else []"
  have c1: "certificatePaths env = ?d"
    using assms by (simp add: certificatePaths_def)
  have c2: "certificatePaths (env\<lparr>configuration := Some ?d\<rparr>) = ?d"
    by (simp add: certificatePaths_def)
  have c: "certificatePaths (env\<lparr>configuration := Some ?d\<rparr>) = certificatePaths env"
    using c1 c2 by simp
  have "getTrustedCertificates (env\<lparr>configuration := Some ?d\<rparr>) this s =
      getTrustedCertificates env this s"
    unfolding getTrustedCertificates_def getCertificatesFromSystem_configuration
      getCertificatesFromPaths_configuration c ..
  with c1 show ?thesis by simp
qed

theorem default_paths_when_unconfigured_witness:
  "certificatePaths (exampleEnv\<lparr>configuration := None\<rparr>) =
     [''/etc/ssl/certs/ca-certificates'', ''/etc/openssl/certs'',
      ''/etc/pki/tls/certs'', ''/usr/local/share/certs''] \<and>
   certificatePaths (workingWindows\<lparr>configuration := None\<rparr>) = []"
proof -
  have l: "configuration (exampleEnv\<lparr>configuration := None\<rparr>) = None"
    and w: "configuration (workingWindows\<lparr>configuration := None\<rparr>) = None"
    by simp_all
  have "isLinux (exampleEnv\<lparr>configuration := None\<rparr>)"
    and "\<not> isLinux (workingWindows\<lparr>configuration := None\<rparr>)"
    by (simp_all add: example_defs)
  with default_paths_when_unconfigured [OF l] default_paths_when_unconfigured [OF w]
  show ?thesis by simp
qed

section \<open>The reported counts\<close>

text \<open>
  Claim C10. The claim: the two properties hold the number of entries the system
  contributed and the number the configured paths contributed during the invocation. On the
  Linux example with the one configured file the system contributes no entry, yet the second
  invocation reports \<^verbatim>\<open>fromSystemCount\<close> as 1: line 35 takes the length of the memoized
  array, into which line 39 of the first invocation pushed its path entry.
\<close>

theorem second_invocation_miscounts_system_entries:
  "contents (snd (getCertificatesFromSystem oneFile exampleState)) 0 = [] \<and>
   snd (snd (getTrustedCertificates oneFile exampleContext exampleState)) =
     memoized [CertString ''/a.pem''] \<and>
   properties (fst (snd (getTrustedCertificates oneFile exampleContext
     (memoized [CertString ''/a.pem''])))) ''fromSystemCount'' = Some ''1'' \<and>
   properties (fst (snd (getTrustedCertificates oneFile exampleContext
     (memoized [CertString ''/a.pem''])))) ''fromPathsCount'' = Some ''1''"
  by (simp add: oneFile_system oneFile_first oneFile_second)
     (simp add: memoized_def contents_def reported_def)

end
